theory Spec2Isabelle
  imports Complex_Main
begin

text \<open>
  The loss functions of \<open>MLlib/loss_func.py\<close>: the graph node \<open>MeanSquaredError\<close> with its
  \<open>forward\<close> and \<open>backward\<close> and its legacy functions, its alias \<open>MSELoss\<close>, and the classical
  functions \<open>AbsoluteError.derivative\<close>, \<open>Huber.loss\<close> and \<open>MeanSquaredLogLoss.loss\<close>. The NumPy
  operations the module calls are modelled first, then the module's
  collaborators, then the module itself, function by function; raised exceptions are
  values of the type \<open>error\<close>.
\<close>

section \<open>The numeric substrate\<close>

subsection \<open>Float values\<close>

text \<open>
  The elements of a NumPy float array. A finite float is the real number it stands for,
  and the non-finite values are kept, because the module relies on the substrate returning
  them instead of raising (\<open>x / 0\<close> is \<open>inf\<close> or \<open>nan\<close>, \<open>log 0\<close> is \<open>-inf\<close>). An operation whose
  exact result lies beyond the largest float overflows to an infinity. Rounding, underflow
  and the sign of zero are left out: a result within range is exact.
\<close>

datatype npfloat = Num real | PosInf | NegInf | NaN

text \<open>The largest float of the 64-bit format.\<close>

definition float_max :: real where
  "float_max = 2 ^ 1024 - 2 ^ 971"

definition overflow :: "real \<Rightarrow> npfloat" where
  "overflow r = (if float_max < r then PosInf else if r < - float_max then NegInf else Num r)"

fun fneg :: "npfloat \<Rightarrow> npfloat" where
  "fneg (Num a) = Num (- a)"
| "fneg PosInf = NegInf"
| "fneg NegInf = PosInf"
| "fneg NaN = NaN"

fun fadd :: "npfloat \<Rightarrow> npfloat \<Rightarrow> npfloat" where
  "fadd (Num a) (Num b) = overflow (a + b)"
| "fadd NaN y = NaN"
| "fadd x NaN = NaN"
| "fadd PosInf NegInf = NaN"
| "fadd NegInf PosInf = NaN"
| "fadd PosInf y = PosInf"
| "fadd x PosInf = PosInf"
| "fadd NegInf y = NegInf"
| "fadd x NegInf = NegInf"

definition fsub :: "npfloat \<Rightarrow> npfloat \<Rightarrow> npfloat" where
  "fsub x y = fadd x (fneg y)"

fun fmul :: "npfloat \<Rightarrow> npfloat \<Rightarrow> npfloat" where
  "fmul (Num a) (Num b) = overflow (a * b)"
| "fmul NaN y = NaN"
| "fmul x NaN = NaN"
| "fmul (Num a) PosInf = (if a = 0 then NaN else if 0 < a then PosInf else NegInf)"
| "fmul (Num a) NegInf = (if a = 0 then NaN else if 0 < a then NegInf else PosInf)"
| "fmul PosInf (Num b) = (if b = 0 then NaN else if 0 < b then PosInf else NegInf)"
| "fmul NegInf (Num b) = (if b = 0 then NaN else if 0 < b then NegInf else PosInf)"
| "fmul PosInf PosInf = PosInf"
| "fmul PosInf NegInf = NegInf"
| "fmul NegInf PosInf = NegInf"
| "fmul NegInf NegInf = PosInf"

text \<open>Division by a zero float does not raise: it yields \<open>nan\<close> for \<open>0 / 0\<close> and an
  infinity otherwise (the divisor's zero is taken as \<open>+0\<close>).\<close>

fun fdiv :: "npfloat \<Rightarrow> npfloat \<Rightarrow> npfloat" where
  "fdiv (Num a) (Num b) =
     (if b = 0 then (if a = 0 then NaN else if 0 < a then PosInf else NegInf)
      else overflow (a / b))"
| "fdiv NaN y = NaN"
| "fdiv x NaN = NaN"
| "fdiv (Num a) PosInf = Num 0"
| "fdiv (Num a) NegInf = Num 0"
| "fdiv PosInf (Num b) = (if 0 \<le> b then PosInf else NegInf)"
| "fdiv NegInf (Num b) = (if 0 \<le> b then NegInf else PosInf)"
| "fdiv PosInf PosInf = NaN"
| "fdiv PosInf NegInf = NaN"
| "fdiv NegInf PosInf = NaN"
| "fdiv NegInf NegInf = NaN"

fun fabs :: "npfloat \<Rightarrow> npfloat" where
  "fabs (Num a) = Num \<bar>a\<bar>"
| "fabs PosInf = PosInf"
| "fabs NegInf = PosInf"
| "fabs NaN = NaN"

text \<open>\<open>x ** 2\<close>, \<open>np.power(x, 2)\<close> and \<open>np.square(x)\<close>.\<close>

definition fsquare :: "npfloat \<Rightarrow> npfloat" where
  "fsquare x = fmul x x"

fun fsqrt :: "npfloat \<Rightarrow> npfloat" where
  "fsqrt (Num a) = (if 0 \<le> a then Num (sqrt a) else NaN)"
| "fsqrt PosInf = PosInf"
| "fsqrt NegInf = NaN"
| "fsqrt NaN = NaN"

fun flog :: "npfloat \<Rightarrow> npfloat" where
  "flog (Num a) = (if 0 < a then Num (ln a) else if a = 0 then NegInf else NaN)"
| "flog PosInf = PosInf"
| "flog NegInf = NaN"
| "flog NaN = NaN"

fun fexp :: "npfloat \<Rightarrow> npfloat" where
  "fexp (Num a) = overflow (exp a)"
| "fexp PosInf = PosInf"
| "fexp NegInf = Num 0"
| "fexp NaN = NaN"

text \<open>Comparisons: every ordered comparison with \<open>nan\<close> is false, \<open>nan != x\<close> is true.\<close>

fun fle :: "npfloat \<Rightarrow> npfloat \<Rightarrow> bool" where
  "fle (Num a) (Num b) = (a \<le> b)"
| "fle NaN y = False"
| "fle x NaN = False"
| "fle NegInf y = True"
| "fle x PosInf = True"
| "fle PosInf y = False"
| "fle x NegInf = False"

definition fne :: "npfloat \<Rightarrow> npfloat \<Rightarrow> bool" where
  "fne x y = (if x = NaN then True else if y = NaN then True else \<not> (x = y))"

text \<open>
  The sum of a list of floats, added in index order. \<open>np.sum\<close> and \<open>np.dot\<close> add in an order
  of their own; the result is the same whenever no partial sum overflows.
\<close>

primrec fsum :: "npfloat list \<Rightarrow> npfloat" where
  "fsum [] = Num 0"
| "fsum (x # xs) = fadd x (fsum xs)"

subsection \<open>Arrays\<close>

text \<open>
  An n-dimensional array: its shape and its elements in row-major order. A Python or
  NumPy scalar is the array of shape \<open>()\<close>. A well-formed array has as many elements as
  its shape says.
\<close>

record 'a ndarray =
  shape :: "nat list"
  elems :: "'a list"

definition wf_array :: "'a ndarray \<Rightarrow> bool" where
  "wf_array a = (length (elems a) = prod_list (shape a))"

definition np_scalar :: "'a \<Rightarrow> 'a ndarray" where
  "np_scalar v = \<lparr>shape = [], elems = [v]\<rparr>"

text \<open>The multi-index of a flat position, and back.\<close>

fun unravel :: "nat list \<Rightarrow> nat \<Rightarrow> nat list" where
  "unravel [] k = []"
| "unravel (d # ds) k = (k div prod_list ds) # unravel ds (k mod prod_list ds)"

fun ravel :: "nat list \<Rightarrow> nat list \<Rightarrow> nat" where
  "ravel (d # ds) (i # is) = i * prod_list ds + ravel ds is"
| "ravel ds is = 0"

text \<open>
  Broadcasting: shapes are aligned at their trailing axes; two sizes are compatible
  when they are equal or one of them is 1.
\<close>

fun broadcast_rev :: "nat list \<Rightarrow> nat list \<Rightarrow> nat list option" where
  "broadcast_rev [] ys = Some ys"
| "broadcast_rev xs [] = Some xs"
| "broadcast_rev (x # xs) (y # ys) =
     (if x = y then map_option ((#) x) (broadcast_rev xs ys)
      else if x = 1 then map_option ((#) y) (broadcast_rev xs ys)
      else if y = 1 then map_option ((#) x) (broadcast_rev xs ys)
      else None)"

definition broadcast_shapes :: "nat list \<Rightarrow> nat list \<Rightarrow> nat list option" where
  "broadcast_shapes s t = map_option rev (broadcast_rev (rev s) (rev t))"

text \<open>The index into an array of shape \<open>s\<close> that a multi-index of the broadcast shape
  reads: leading axes that \<open>s\<close> lacks are dropped, an axis of size 1 is read at 0.\<close>

definition project_index :: "nat list \<Rightarrow> nat list \<Rightarrow> nat list" where
  "project_index s idx =
     map2 (\<lambda>d i. if d = 1 then 0 else i) s (drop (length idx - length s) idx)"

definition broadcast_to :: "'a ndarray \<Rightarrow> nat list \<Rightarrow> 'a list" where
  "broadcast_to a t =
     map (\<lambda>k. elems a ! ravel (shape a) (project_index (shape a) (unravel t k)))
       [0..<prod_list t]"

datatype error =
    RuntimeError string
  | IndexError
  | ValueError
  | AttributeError
  | ZeroDivisionError
  | DimensionError

definition np_binop ::
  "('a \<Rightarrow> 'b \<Rightarrow> 'c) \<Rightarrow> 'a ndarray \<Rightarrow> 'b ndarray \<Rightarrow> error + 'c ndarray" where
  "np_binop f a b =
     (case broadcast_shapes (shape a) (shape b) of
        None \<Rightarrow> Inl ValueError
      | Some s \<Rightarrow> Inr \<lparr>shape = s, elems = map2 f (broadcast_to a s) (broadcast_to b s)\<rparr>)"

definition np_map :: "('a \<Rightarrow> 'b) \<Rightarrow> 'a ndarray \<Rightarrow> 'b ndarray" where
  "np_map f a = \<lparr>shape = shape a, elems = map f (elems a)\<rparr>"

definition np_sum :: "npfloat ndarray \<Rightarrow> npfloat" where
  "np_sum a = fsum (elems a)"

definition np_zeros_like :: "npfloat ndarray \<Rightarrow> npfloat ndarray" where
  "np_zeros_like a = \<lparr>shape = shape a, elems = map (\<lambda>x. Num 0) (elems a)\<rparr>"

text \<open>\<open>a.T\<close> reverses the axes.\<close>

definition np_T :: "'a ndarray \<Rightarrow> 'a ndarray" where
  "np_T a =
     \<lparr>shape = rev (shape a),
      elems = map (\<lambda>k. elems a ! ravel (shape a) (rev (unravel (rev (shape a)) k)))
                [0..<prod_list (rev (shape a))]\<rparr>"

text \<open>
  \<open>np.dot(a, b)\<close>: a product by a scalar when either argument has no axis; otherwise the
  sum of products over the last axis of \<open>a\<close> and the second-to-last axis of \<open>b\<close> (its only
  axis when \<open>b\<close> has one), which must have the same size.
\<close>

definition dot_axis :: "nat list \<Rightarrow> nat" where
  "dot_axis sb = (if length sb = 1 then hd sb else sb ! (length sb - 2))"

definition dot_rest :: "nat list \<Rightarrow> nat list" where
  "dot_rest sb = (if length sb = 1 then [] else butlast (butlast sb) @ [last sb])"

definition dot_index :: "nat list \<Rightarrow> nat list \<Rightarrow> nat \<Rightarrow> nat list" where
  "dot_index sb ib k = (if length sb = 1 then [k] else butlast ib @ [k, last ib])"

definition np_dot :: "npfloat ndarray \<Rightarrow> npfloat ndarray \<Rightarrow> error + npfloat ndarray" where
  "np_dot a b =
     (if shape a = [] \<or> shape b = [] then np_binop fmul a b
      else if last (shape a) = dot_axis (shape b) then
        (let pa = butlast (shape a); rs = pa @ dot_rest (shape b) in
         Inr \<lparr>shape = rs,
              elems = map (\<lambda>n.
                  let idx = unravel rs n;
                      ia = take (length pa) idx;
                      ib = drop (length pa) idx
                  in fsum (map (\<lambda>k. fmul (elems a ! ravel (shape a) (ia @ [k]))
                                         (elems b ! ravel (shape b) (dot_index (shape b) ib k)))
                            [0..<last (shape a)]))
                [0..<prod_list rs]\<rparr>)
      else Inl ValueError)"

definition broadcast_shapes3 :: "nat list \<Rightarrow> nat list \<Rightarrow> nat list \<Rightarrow> nat list option" where
  "broadcast_shapes3 s t u =
     (case broadcast_shapes s t of None \<Rightarrow> None | Some st \<Rightarrow> broadcast_shapes st u)"

definition np_where ::
  "bool ndarray \<Rightarrow> 'a ndarray \<Rightarrow> 'a ndarray \<Rightarrow> error + 'a ndarray" where
  "np_where c x y =
     (case broadcast_shapes3 (shape c) (shape x) (shape y) of
        None \<Rightarrow> Inl ValueError
      | Some s \<Rightarrow>
          Inr \<lparr>shape = s,
               elems = map (\<lambda>k. if broadcast_to c s ! k then broadcast_to x s ! k
                                 else broadcast_to y s ! k)
                         [0..<prod_list s]\<rparr>)"

text \<open>
  \<open>np.divide(a, b, out=o, where=m)\<close>: the quotient is written into \<open>o\<close> where the mask
  holds; elsewhere \<open>o\<close> keeps what it held. The operands must broadcast to the shape
  of \<open>o\<close>.
\<close>

definition np_divide_where ::
  "npfloat ndarray \<Rightarrow> npfloat ndarray \<Rightarrow> npfloat ndarray \<Rightarrow> bool ndarray
     \<Rightarrow> error + npfloat ndarray" where
  "np_divide_where a b out m =
     (case broadcast_shapes3 (shape a) (shape b) (shape m) of
        None \<Rightarrow> Inl ValueError
      | Some s \<Rightarrow>
          if broadcast_shapes s (shape out) = Some (shape out) then
            (let t = shape out in
             Inr \<lparr>shape = t,
                  elems = map (\<lambda>k. if broadcast_to m t ! k
                                    then fdiv (broadcast_to a t ! k) (broadcast_to b t ! k)
                                    else elems out ! k)
                            [0..<prod_list t]\<rparr>)
          else Inl ValueError)"

definition bindE :: "error + 'a \<Rightarrow> ('a \<Rightarrow> error + 'b) \<Rightarrow> error + 'b" where
  "bindE m f = (case m of Inl e \<Rightarrow> Inl e | Inr x \<Rightarrow> f x)"

text \<open>Python's \<open>1 / M\<close> on an \<open>int\<close>: raises on zero.\<close>

definition py_one_over :: "nat \<Rightarrow> error + npfloat" where
  "py_one_over M = (if M = 0 then Inl ZeroDivisionError else Inr (Num (1 / real M)))"

section \<open>The collaborators of the module\<close>

text \<open>
  Modelled from the spec: the Differentiable Value (\<open>MLlib.Tensor\<close>), whose class is not
  part of the source under study. It exposes \<open>data\<close>, \<open>requires_grad\<close> and \<open>is_leaf\<close> and is
  constructed from an array and the two flags; a scalar is held as an array without axes.
\<close>

record tensor =
  data :: "npfloat ndarray"
  requires_grad :: bool
  is_leaf :: bool

text \<open>Modelled from the spec: the constructor \<open>Tensor(array, requires_grad, is_leaf)\<close>.\<close>

definition Tensor :: "npfloat ndarray \<Rightarrow> bool \<Rightarrow> bool \<Rightarrow> tensor" where
  "Tensor a rg leaf = \<lparr>data = a, requires_grad = rg, is_leaf = leaf\<rparr>"

text \<open>
  Modelled from the spec: when a shape \<open>T\<close> is broadcast-compatible with the shape \<open>S\<close> of a
  gradient, for \<open>unbroadcast\<close> below. Both shapes are read from the trailing axis: every axis
  of \<open>T\<close> equals the axis of \<open>S\<close> at its place, or is 1, or is absent.
\<close>

fun unbroadcast_compatible :: "nat list \<Rightarrow> nat list \<Rightarrow> bool" where
  "unbroadcast_compatible ss [] = True"
| "unbroadcast_compatible [] (t # ts) = False"
| "unbroadcast_compatible (s # ss) (t # ts) =
     (if t = s then unbroadcast_compatible ss ts
      else if t = 1 then unbroadcast_compatible ss ts
      else False)"

text \<open>
  Modelled from the spec: \<open>MLlib.utils.misc_utils.unbroadcast\<close>, not part of the source
  under study. A gradient of shape \<open>S\<close> is reduced to the shape \<open>T\<close> by summing over every
  axis that \<open>S\<close> has and \<open>T\<close> lacks, and over every axis of size 1 in \<open>T\<close>; each element of the
  result is the sum of the elements that broadcasting \<open>T\<close> to \<open>S\<close> would read from it.
  Shapes that are not broadcast-compatible are a dimension error.
\<close>

definition unbroadcast :: "npfloat ndarray \<Rightarrow> nat list \<Rightarrow> error + npfloat ndarray" where
  "unbroadcast grad t =
     (if unbroadcast_compatible (rev (shape grad)) (rev t) then
        Inr \<lparr>shape = t,
             elems = map (\<lambda>n. fsum (map (\<lambda>k. elems grad ! k)
                                  (filter (\<lambda>k. ravel t (project_index t (unravel (shape grad) k)) = n)
                                     [0..<prod_list (shape grad)])))
                       [0..<prod_list t]\<rparr>
      else Inl DimensionError)"

text \<open>
  Modelled from the spec: the sigmoid transform (\<open>MLlib.activations.Sigmoid\<close>), not part
  of the source under study, on one element.
\<close>

definition fsigmoid :: "npfloat \<Rightarrow> npfloat" where
  "fsigmoid x = fdiv (Num 1) (fadd (Num 1) (fexp (fneg x)))"

text \<open>Modelled from the spec: \<open>Sigmoid.activation(z)\<close>, elementwise.\<close>

definition Sigmoid_activation :: "npfloat ndarray \<Rightarrow> npfloat ndarray" where
  "Sigmoid_activation z = np_map fsigmoid z"

text \<open>
  Modelled from the spec: attribute lookup on a \<open>Sigmoid\<close> object. The spec gives the
  transform one operation, \<open>activation\<close>; any other attribute is missing.
\<close>

definition Sigmoid_getattr :: "string \<Rightarrow> error + (npfloat ndarray \<Rightarrow> npfloat ndarray)" where
  "Sigmoid_getattr name =
     (if name = ''activation'' then Inr Sigmoid_activation else Inl AttributeError)"

section \<open>Python values and the context record\<close>

datatype pyobj =
    PyTensor tensor
  | PyNdarray "npfloat ndarray"
  | PyFloat npfloat
  | PyNone

fun type_name :: "pyobj \<Rightarrow> string" where
  "type_name (PyTensor t) = ''Tensor''"
| "type_name (PyNdarray a) = ''ndarray''"
| "type_name (PyFloat x) = ''float''"
| "type_name PyNone = ''NoneType''"

text \<open>The context is an attribute bag: a map from attribute names to cached arrays.\<close>

type_synonym ctx = "string \<rightharpoonup> npfloat ndarray"

section \<open>MeanSquaredError\<close>

definition type_error_message :: "string \<Rightarrow> string \<Rightarrow> string" where
  "type_error_message p t =
     ''Expected Tensors, got '' @ p @ '' and '' @ t @
     ''. Please use .loss() method for non-Tensor data''"

text \<open>
  \<open>forward(ctx, prediction, target)\<close> returns its result, or the exception it raised,
  together with the context as the call leaves it.
\<close>

definition MeanSquaredError_forward ::
  "ctx \<Rightarrow> pyobj \<Rightarrow> pyobj \<Rightarrow> (error + tensor) \<times> ctx" where
  "MeanSquaredError_forward ctx prediction target =
     (if \<not> (type_name prediction = ''Tensor'' \<and> type_name target = ''Tensor'') then
        (Inl (RuntimeError (type_error_message (type_name prediction) (type_name target))), ctx)
      else
        (case (prediction, target) of
           (PyTensor p, PyTensor t) \<Rightarrow>
             (let rg = requires_grad p in
              case shape (data t) of
                [] \<Rightarrow> (Inl IndexError, ctx)
              | batch_size # rest \<Rightarrow>
                  (case np_binop fsub (data p) (data t) of
                     Inl e \<Rightarrow> (Inl e, ctx)
                   | Inr out \<Rightarrow>
                       (let ctx' = (if rg then ctx(''derivative_core'' \<mapsto> out) else ctx);
                            out' = fdiv (np_sum (np_map fsquare out))
                                     (Num (real (2 * batch_size)))
                        in (Inr (Tensor (np_scalar out') rg (\<not> rg)), ctx'))))
         | other \<Rightarrow> (Inl AttributeError, ctx)))"

text \<open>
  \<open>backward(ctx, grad_output)\<close> only reads the context. The gradient it returns is built
  by \<open>Tensor(...)\<close> with the constructor's defaults, taken to be no gradient required and
  a leaf.
\<close>

definition MeanSquaredError_backward :: "ctx \<Rightarrow> tensor \<Rightarrow> error + tensor" where
  "MeanSquaredError_backward ctx grad_output =
     (case ctx ''derivative_core'' of
        None \<Rightarrow> Inl AttributeError
      | Some derivative \<Rightarrow>
          (case shape derivative of
             [] \<Rightarrow> Inl IndexError
           | n # rest \<Rightarrow>
               bindE (np_binop fmul (np_map (\<lambda>x. fdiv x (Num (real n))) derivative)
                        (data grad_output))
                 (\<lambda>grad_prediction.
                    bindE (unbroadcast grad_prediction (shape derivative))
                      (\<lambda>g. Inr (Tensor g False True)))))"

definition MeanSquaredError_loss ::
  "npfloat ndarray \<Rightarrow> npfloat ndarray \<Rightarrow> npfloat ndarray \<Rightarrow> error + npfloat" where
  "MeanSquaredError_loss X Y W =
     (case shape X of
        [] \<Rightarrow> Inl IndexError
      | M # rest \<Rightarrow>
          bindE (np_dot X W) (\<lambda>P.
          bindE (np_binop fsub (np_T P) Y) (\<lambda>D.
          Inr (fdiv (np_sum (np_map fsquare D)) (Num (real (2 * M)))))))"

definition MeanSquaredError_derivative ::
  "npfloat ndarray \<Rightarrow> npfloat ndarray \<Rightarrow> npfloat ndarray \<Rightarrow> error + npfloat ndarray" where
  "MeanSquaredError_derivative X Y W =
     (case shape X of
        [] \<Rightarrow> Inl IndexError
      | M # rest \<Rightarrow>
          bindE (np_dot X W) (\<lambda>P.
          bindE (np_binop fsub (np_T P) Y) (\<lambda>D.
          bindE (np_dot D X) (\<lambda>G.
          Inr (np_map (\<lambda>x. fdiv x (Num (real M))) (np_T G))))))"

text \<open>The legacy functions on a design matrix \<open>X\<close> of \<open>M\<close> rows and \<open>n\<close> columns, a weight vector
  and a target vector: the prediction of sample \<open>i\<close> is \<open>\<Sum>k. X\<^sub>i\<^sub>k * W\<^sub>k\<close>.\<close>

definition row_prediction :: "npfloat ndarray \<Rightarrow> npfloat ndarray \<Rightarrow> nat \<Rightarrow> nat \<Rightarrow> npfloat" where
  "row_prediction X W n i = fsum (map (\<lambda>k. fmul (elems X ! (i * n + k)) (elems W ! k)) [0..<n])"

section \<open>The classical loss families\<close>

text \<open>The guarded quotient \<open>AbsError / |AbsError|\<close> of \<open>AbsoluteError.derivative\<close>: the
  division is done where \<open>|AbsError| != 0\<close>, into an array of zeros.\<close>

definition guarded_sign :: "npfloat ndarray \<Rightarrow> error + npfloat ndarray" where
  "guarded_sign AbsError =
     np_divide_where AbsError (np_map fabs AbsError) (np_zeros_like AbsError)
       (np_map (\<lambda>x. fne x (Num 0)) (np_map fabs AbsError))"

text \<open>What the guarded quotient is on one element.\<close>

definition guarded_quotient :: "npfloat \<Rightarrow> npfloat" where
  "guarded_quotient x = (if fne (fabs x) (Num 0) then fdiv x (fabs x) else Num 0)"

definition AbsoluteError_derivative ::
  "npfloat ndarray \<Rightarrow> npfloat ndarray \<Rightarrow> npfloat ndarray \<Rightarrow> error + npfloat ndarray" where
  "AbsoluteError_derivative X Y W =
     (case shape X of
        [] \<Rightarrow> Inl IndexError
      | M # rest \<Rightarrow>
          bindE (np_dot X W) (\<lambda>P.
          bindE (np_binop fsub (np_T P) Y) (\<lambda>AbsError.
          bindE (guarded_sign AbsError) (\<lambda>S.
          bindE (np_dot S X) (\<lambda>G.
          Inr (np_map (\<lambda>x. fdiv x (Num (real M))) (np_T G)))))))"

text \<open>\<open>delta\<close> is an optional argument with the default \<open>1.0\<close>; a Python float is the array
  without axes.\<close>

definition huber_delta :: "npfloat ndarray option \<Rightarrow> npfloat ndarray" where
  "huber_delta d = (case d of None \<Rightarrow> np_scalar (Num 1) | Some a \<Rightarrow> a)"

text \<open>The two branches of the Huber loss on one element: \<open>d\<close> is \<open>X - Y\<close> there.\<close>

definition huber_smooth :: "npfloat \<Rightarrow> npfloat" where
  "huber_smooth d = fmul (Num (1 / 2)) (fsquare d)"

definition huber_linear :: "npfloat \<Rightarrow> npfloat \<Rightarrow> npfloat" where
  "huber_linear delta d = fmul delta (fsub (fabs d) (fmul (Num (1 / 2)) delta))"

text \<open>The Huber loss as the spec writes it, on a real residual \<open>r = X - Y\<close>:
  \<open>0.5 * r^2\<close> if \<open>|r| \<le> delta\<close>, else \<open>delta * (|r| - 0.5 * delta)\<close>.\<close>

definition huber_spec :: "real \<Rightarrow> real \<Rightarrow> real" where
  "huber_spec delta r = (if \<bar>r\<bar> \<le> delta then 1 / 2 * r\<^sup>2 else delta * (\<bar>r\<bar> - 1 / 2 * delta))"

definition Huber_loss ::
  "npfloat ndarray \<Rightarrow> npfloat ndarray \<Rightarrow> npfloat ndarray option \<Rightarrow> error + npfloat ndarray" where
  "Huber_loss X Y d =
     (let delta = huber_delta d in
      bindE (np_binop fsub X Y) (\<lambda>D.
      bindE (np_binop fle (np_map fabs D) delta) (\<lambda>C.
      let S = np_map (\<lambda>x. fmul (Num (1 / 2)) (fsquare x)) D in
      bindE (np_binop fsub (np_map fabs D) (np_map (\<lambda>x. fmul (Num (1 / 2)) x) delta)) (\<lambda>L1.
      bindE (np_binop fmul delta L1) (\<lambda>L.
      np_where C S L)))))"

definition MeanSquaredLogLoss_loss ::
  "npfloat ndarray \<Rightarrow> npfloat ndarray \<Rightarrow> npfloat ndarray \<Rightarrow> error + npfloat" where
  "MeanSquaredLogLoss_loss X Y W =
     (case shape X of
        [] \<Rightarrow> Inl IndexError
      | M # rest \<Rightarrow>
          bindE (Sigmoid_getattr ''activations'') (\<lambda>activations.
          bindE (np_dot X W) (\<lambda>P.
          let H = activations (np_T P) in
          bindE (py_one_over M) (\<lambda>r.
          bindE (np_binop fsub (np_map flog (np_map (\<lambda>y. fadd y (Num 1)) Y))
                   (np_map flog (np_map (\<lambda>h. fadd h (Num 1)) H))) (\<lambda>D.
          Inr (fsqrt (fmul r (np_sum D))))))))"

section \<open>Classes\<close>

text \<open>
  The methods of the module's graph node are static methods found by attribute lookup on
  a class: in the class's own dictionary first, then in its bases, in order.
\<close>

datatype pymethod =
    ForwardMethod "ctx \<Rightarrow> pyobj \<Rightarrow> pyobj \<Rightarrow> (error + tensor) \<times> ctx"
  | BackwardMethod "ctx \<Rightarrow> tensor \<Rightarrow> error + tensor"
  | LossMethod "npfloat ndarray \<Rightarrow> npfloat ndarray \<Rightarrow> npfloat ndarray \<Rightarrow> error + npfloat"
  | DerivativeMethod
      "npfloat ndarray \<Rightarrow> npfloat ndarray \<Rightarrow> npfloat ndarray \<Rightarrow> error + npfloat ndarray"

datatype pyclass = PyClass string "(string \<times> pymethod) list" "pyclass list"

fun first_some :: "'a option list \<Rightarrow> 'a option" where
  "first_some [] = None"
| "first_some (None # xs) = first_some xs"
| "first_some (Some x # xs) = Some x"

fun class_getattr :: "pyclass \<Rightarrow> string \<Rightarrow> pymethod option" where
  "class_getattr (PyClass name dict bases) a =
     (case map_of dict a of
        Some m \<Rightarrow> Some m
      | None \<Rightarrow> first_some (map (\<lambda>b. class_getattr b a) bases))"

text \<open>\<open>autograd.Function\<close>, the base class of the node, is not part of the source under
  study; it is a parameter of the two classes.\<close>

definition MeanSquaredError :: "pyclass \<Rightarrow> pyclass" where
  "MeanSquaredError Function =
     PyClass ''MeanSquaredError''
       [(''forward'', ForwardMethod MeanSquaredError_forward),
        (''backward'', BackwardMethod MeanSquaredError_backward),
        (''loss'', LossMethod MeanSquaredError_loss),
        (''derivative'', DerivativeMethod MeanSquaredError_derivative)]
       [Function]"

definition MSELoss :: "pyclass \<Rightarrow> pyclass" where
  "MSELoss Function = PyClass ''MSELoss'' [] [MeanSquaredError Function]"

text \<open>Calling a method through a class; a missing or ill-typed attribute is an
  \<open>AttributeError\<close>.\<close>

definition call_forward ::
  "pyclass \<Rightarrow> ctx \<Rightarrow> pyobj \<Rightarrow> pyobj \<Rightarrow> (error + tensor) \<times> ctx" where
  "call_forward c ctx prediction target =
     (case class_getattr c ''forward'' of
        Some (ForwardMethod f) \<Rightarrow> f ctx prediction target
      | other \<Rightarrow> (Inl AttributeError, ctx))"

definition call_backward :: "pyclass \<Rightarrow> ctx \<Rightarrow> tensor \<Rightarrow> error + tensor" where
  "call_backward c ctx grad_output =
     (case class_getattr c ''backward'' of
        Some (BackwardMethod f) \<Rightarrow> f ctx grad_output
      | other \<Rightarrow> Inl AttributeError)"

definition call_loss ::
  "pyclass \<Rightarrow> npfloat ndarray \<Rightarrow> npfloat ndarray \<Rightarrow> npfloat ndarray \<Rightarrow> error + npfloat" where
  "call_loss c X Y W =
     (case class_getattr c ''loss'' of
        Some (LossMethod f) \<Rightarrow> f X Y W
      | other \<Rightarrow> Inl AttributeError)"

definition call_derivative ::
  "pyclass \<Rightarrow> npfloat ndarray \<Rightarrow> npfloat ndarray \<Rightarrow> npfloat ndarray
     \<Rightarrow> error + npfloat ndarray" where
  "call_derivative c X Y W =
     (case class_getattr c ''derivative'' of
        Some (DerivativeMethod f) \<Rightarrow> f X Y W
      | other \<Rightarrow> Inl AttributeError)"

section \<open>Facts about floats\<close>

lemma float_max_large: "1000000 \<le> float_max"
proof -
  have "(2::real) ^ 971 * 2 \<le> 2 ^ 971 * 2 ^ 53"
    by (intro mult_left_mono) simp_all
  then have "(2::real) ^ 971 \<le> 2 ^ 1024 - 2 ^ 971"
    by (simp add: power_add [symmetric])
  moreover have "(1000000::real) \<le> 2 ^ 20" by simp
  moreover have "(2::real) ^ 20 \<le> 2 ^ 971"
    by (rule power_increasing) simp_all
  ultimately show ?thesis
    unfolding float_max_def by linarith
qed

lemma overflow_in_range: "\<bar>r\<bar> \<le> float_max \<Longrightarrow> overflow r = Num r"
  by (auto simp: overflow_def)

lemma overflow_small: "\<bar>r\<bar> \<le> 1000000 \<Longrightarrow> overflow r = Num r"
  using float_max_large by (intro overflow_in_range) linarith

lemma overflow_finite: "overflow r = Num v \<Longrightarrow> v = r"
  by (auto simp: overflow_def split: if_splits)

section \<open>Facts about arrays\<close>

lemma length_unravel: "length (unravel s k) = length s"
  by (induction s arbitrary: k) simp_all

lemma ravel_unravel: "k < prod_list s \<Longrightarrow> ravel s (unravel s k) = k"
proof (induction s arbitrary: k)
  case Nil
  then show ?case by simp
next
  case (Cons d ds)
  from Cons.prems have pos: "0 < prod_list ds"
    by (cases "prod_list ds = 0") simp_all
  then have "k mod prod_list ds < prod_list ds" by simp
  then have "ravel ds (unravel ds (k mod prod_list ds)) = k mod prod_list ds"
    by (rule Cons.IH)
  then show ?case by simp
qed

lemma unravel_bound: "k < prod_list s \<Longrightarrow> list_all2 (\<lambda>i d. i < d) (unravel s k) s"
proof (induction s arbitrary: k)
  case Nil
  then show ?case by simp
next
  case (Cons d ds)
  from Cons.prems have pos: "0 < prod_list ds"
    by (cases "prod_list ds = 0") simp_all
  from Cons.prems have "k div prod_list ds < d"
    by (simp add: less_mult_imp_div_less mult.commute)
  moreover have "list_all2 (\<lambda>i d. i < d) (unravel ds (k mod prod_list ds)) ds"
    using pos by (intro Cons.IH) simp
  ultimately show ?case by simp
qed

lemma map2_axis_one_id:
  "list_all2 (\<lambda>i d. i < d) idx s \<Longrightarrow>
   map2 (\<lambda>d i. if d = 1 then 0 else i) s idx = (idx :: nat list)"
  by (induction idx s rule: list_all2_induct) auto

lemma project_index_self:
  "k < prod_list s \<Longrightarrow> project_index s (unravel s k) = unravel s k"
  using map2_axis_one_id [OF unravel_bound, of k s]
  by (simp add: project_index_def length_unravel)

lemma broadcast_to_self: "wf_array a \<Longrightarrow> broadcast_to a (shape a) = elems a"
proof -
  assume wf: "wf_array a"
  have "broadcast_to a (shape a) = map (\<lambda>k. elems a ! k) [0..<prod_list (shape a)]"
    unfolding broadcast_to_def
    by (rule map_cong) (simp_all add: project_index_self ravel_unravel)
  also have "\<dots> = elems a"
    using wf unfolding wf_array_def by (metis map_nth)
  finally show ?thesis .
qed

lemma broadcast_to_scalar: "broadcast_to (np_scalar v) t = replicate (prod_list t) v"
  by (simp add: broadcast_to_def np_scalar_def project_index_def map_replicate_const)

lemma length_broadcast_to: "length (broadcast_to a t) = prod_list t"
  by (simp add: broadcast_to_def)

lemma broadcast_rev_self: "broadcast_rev s s = Some s"
  by (induction s) simp_all

lemma broadcast_rev_Nil2: "broadcast_rev s [] = Some s"
  by (cases s) simp_all

lemma broadcast_shapes_self: "broadcast_shapes s s = Some s"
  by (simp add: broadcast_shapes_def broadcast_rev_self)

lemma broadcast_shapes_Nil2: "broadcast_shapes s [] = Some s"
  by (simp add: broadcast_shapes_def broadcast_rev_Nil2)

lemma broadcast_shapes_Nil1: "broadcast_shapes [] s = Some s"
  by (simp add: broadcast_shapes_def)

lemma np_binop_same_shape:
  "wf_array a \<Longrightarrow> wf_array b \<Longrightarrow> shape a = shape b \<Longrightarrow>
   np_binop f a b = Inr \<lparr>shape = shape a, elems = map2 f (elems a) (elems b)\<rparr>"
  using broadcast_to_self [of a] broadcast_to_self [of b]
  by (simp add: np_binop_def broadcast_shapes_self)

lemma np_binop_scalar_right:
  "wf_array a \<Longrightarrow>
   np_binop f a (np_scalar v) = Inr \<lparr>shape = shape a, elems = map (\<lambda>x. f x v) (elems a)\<rparr>"
proof -
  assume wf: "wf_array a"
  have "map2 f (elems a) (replicate (prod_list (shape a)) v) = map (\<lambda>x. f x v) (elems a)"
    using wf unfolding wf_array_def
    by (intro nth_equalityI) simp_all
  then show ?thesis
    using broadcast_to_self [OF wf] broadcast_to_scalar [of v "shape a"]
    by (simp add: np_binop_def broadcast_shapes_Nil2 np_scalar_def)
qed

lemma np_binop_error: "np_binop f a b = Inl e \<Longrightarrow> e = ValueError"
  by (auto simp: np_binop_def split: option.splits)

lemma np_binop_wf: "np_binop f a b = Inr c \<Longrightarrow> wf_array c"
  by (auto simp: np_binop_def wf_array_def length_broadcast_to split: option.splits)

lemma np_map_wf: "wf_array a \<Longrightarrow> wf_array (np_map f a)"
  by (simp add: wf_array_def np_map_def)

lemma unbroadcast_compatible_self: "unbroadcast_compatible s s"
  by (induction s) simp_all

lemma broadcast_shapes3_self: "broadcast_shapes3 s s s = Some s"
  by (simp add: broadcast_shapes3_def broadcast_shapes_self)

lemma np_binop_scalar_left:
  assumes wf: "wf_array a"
  shows "np_binop f (np_scalar v) a = Inr \<lparr>shape = shape a, elems = map (\<lambda>x. f v x) (elems a)\<rparr>"
proof -
  have "map2 f (replicate (prod_list (shape a)) v) (elems a) = map (\<lambda>x. f v x) (elems a)"
    using wf unfolding wf_array_def
    by (intro nth_equalityI) simp_all
  then show ?thesis
    using broadcast_to_self [OF wf] broadcast_to_scalar [of v "shape a"]
    by (simp add: np_binop_def broadcast_shapes_Nil1 np_scalar_def)
qed

lemma np_where_same_shape:
  assumes "wf_array c" and "wf_array x" and "wf_array y"
      and "shape x = shape c" and "shape y = shape c"
  shows "np_where c x y
         = Inr \<lparr>shape = shape c,
                elems = map (\<lambda>k. if elems c ! k then elems x ! k else elems y ! k)
                          [0..<length (elems c)]\<rparr>"
  using assms broadcast_to_self [of c] broadcast_to_self [of x] broadcast_to_self [of y]
  by (simp add: np_where_def broadcast_shapes3_self wf_array_def cong: if_cong)

lemma length_broadcast_rev:
  "broadcast_rev xs ys = Some zs \<Longrightarrow> length zs = max (length xs) (length ys)"
  by (induction xs ys arbitrary: zs rule: broadcast_rev.induct)
     (auto split: if_splits)

lemma length_broadcast_shapes:
  "broadcast_shapes s t = Some u \<Longrightarrow> length u = max (length s) (length t)"
  by (auto simp: broadcast_shapes_def dest: length_broadcast_rev)

lemma np_dot_vec_mat:
  assumes "shape a = [M]" and "shape b = [M, n]"
  shows "np_dot a b = Inr \<lparr>shape = [n],
           elems = map (\<lambda>j. fsum (map (\<lambda>k. fmul (elems a ! k) (elems b ! (k * n + j))) [0..<M]))
                     [0..<n]\<rparr>"
  using assms
  by (simp add: np_dot_def dot_axis_def dot_rest_def dot_index_def)

lemma np_T_vector:
  assumes "shape a = [n]" and "length (elems a) = n"
  shows "np_T a = a"
proof -
  have "map (\<lambda>k. elems a ! k) [0..<n] = elems a"
    using assms(2) by (metis map_nth)
  then show ?thesis
    using assms(1) by (simp add: np_T_def)
qed


lemma np_dot_mat_vec:
  assumes "shape a = [M, n]" and "shape b = [n]"
  shows "np_dot a b = Inr \<lparr>shape = [M],
           elems = map (\<lambda>i. fsum (map (\<lambda>k. fmul (elems a ! (i * n + k)) (elems b ! k)) [0..<n]))
                     [0..<M]\<rparr>"
  using assms
  by (simp add: np_dot_def dot_axis_def dot_rest_def dot_index_def)

lemma map2_over_indices:
  assumes "length ys = M"
  shows "map2 g (map f [0..<M]) ys = map (\<lambda>i. g (f i) (ys ! i)) [0..<M]"
  using assms by (intro nth_equalityI) simp_all

section \<open>The value of \<open>forward\<close>\<close>

lemma forward_on_tensors:
  assumes "shape (data t) = batch_size # rest"
      and "broadcast_shapes (shape (data p)) (shape (data t)) = Some s"
  shows "MeanSquaredError_forward ctx (PyTensor p) (PyTensor t) =
     (Inr \<lparr>data = np_scalar (fdiv
               (fsum (map2 (\<lambda>x y. fsquare (fsub x y))
                        (broadcast_to (data p) s) (broadcast_to (data t) s)))
               (Num (2 * real batch_size))),
           requires_grad = requires_grad p, is_leaf = (\<not> requires_grad p)\<rparr>,
      if requires_grad p
      then ctx(''derivative_core'' \<mapsto>
             \<lparr>shape = s, elems = map2 fsub (broadcast_to (data p) s) (broadcast_to (data t) s)\<rparr>)
      else ctx)"
  using assms
  by (simp add: MeanSquaredError_forward_def np_binop_def Let_def Tensor_def np_sum_def
        np_map_def comp_def case_prod_unfold)

text \<open>
  Claim C1, as amended. For tensors whose shapes broadcast together and whose target has a
  leading axis, \<open>forward\<close> returns a tensor that holds the scalar
  \<open>sum((prediction.data - target.data)^2) / (2 * batch_size)\<close>, the difference being taken
  between the two arrays broadcast to their common shape and \<open>batch_size\<close> being the size
  of the target's leading axis; its \<open>requires_grad\<close> is the prediction's and its \<open>is_leaf\<close> the
  negation of that.
\<close>

theorem forward_value:
  assumes "shape (data t) = batch_size # rest"
      and "broadcast_shapes (shape (data p)) (shape (data t)) = Some s"
  shows "fst (MeanSquaredError_forward ctx (PyTensor p) (PyTensor t)) =
     Inr \<lparr>data = np_scalar (fdiv
               (fsum (map2 (\<lambda>x y. fsquare (fsub x y))
                        (broadcast_to (data p) s) (broadcast_to (data t) s)))
               (Num (2 * real batch_size))),
          requires_grad = requires_grad p, is_leaf = (\<not> requires_grad p)\<rparr>"
  using forward_on_tensors [OF assms] by simp

theorem forward_value_witness:
  "shape (data (Tensor \<lparr>shape = [2, 2], elems = [Num 0, Num 1, Num 2, Num 3]\<rparr> False True))
     = 2 # [2]
   \<and> broadcast_shapes (shape (data (Tensor \<lparr>shape = [1], elems = [Num 1]\<rparr> True True)))
        (shape (data (Tensor \<lparr>shape = [2, 2], elems = [Num 0, Num 1, Num 2, Num 3]\<rparr> False True)))
     = Some [2, 2]
   \<and> fst (MeanSquaredError_forward Map.empty
          (PyTensor (Tensor \<lparr>shape = [1], elems = [Num 1]\<rparr> True True))
          (PyTensor (Tensor \<lparr>shape = [2, 2], elems = [Num 0, Num 1, Num 2, Num 3]\<rparr> False True)))
     = Inr \<lparr>data = np_scalar (Num (3 / 2)), requires_grad = True, is_leaf = False\<rparr>"
proof -
  have a: "shape (data (Tensor \<lparr>shape = [2, 2], elems = [Num 0, Num 1, Num 2, Num 3]\<rparr> False True))
     = 2 # [2]"
    by (simp add: Tensor_def)
  have b: "broadcast_shapes (shape (data (Tensor \<lparr>shape = [1], elems = [Num 1]\<rparr> True True)))
        (shape (data (Tensor \<lparr>shape = [2, 2], elems = [Num 0, Num 1, Num 2, Num 3]\<rparr> False True)))
     = Some [2, 2]"
    by (simp add: Tensor_def broadcast_shapes_def)
  show ?thesis
    using forward_value [OF a b, of Map.empty] a b
    by (simp add: Tensor_def broadcast_to_def project_index_def fsquare_def fsub_def upt_rec
          overflow_small)
qed

text \<open>
  Claim C1 as stated ranges over every pair of tensors. A target without an axis (a scalar
  tensor, such as the output of \<open>forward\<close> itself) has no \<open>shape[0]\<close>, and shapes that do not
  broadcast have no difference: on such pairs \<open>forward\<close> raises and returns no value.
\<close>

theorem forward_every_pair_counterexample:
  "fst (MeanSquaredError_forward Map.empty
          (PyTensor (Tensor (np_scalar (Num 1)) True True))
          (PyTensor (Tensor (np_scalar (Num 2)) False True))) = Inl IndexError
   \<and> fst (MeanSquaredError_forward Map.empty
          (PyTensor (Tensor \<lparr>shape = [2], elems = [Num 1, Num 2]\<rparr> True True))
          (PyTensor (Tensor \<lparr>shape = [3], elems = [Num 1, Num 2, Num 3]\<rparr> False True)))
       = Inl ValueError"
  by (simp add: MeanSquaredError_forward_def Tensor_def np_scalar_def np_binop_def
        broadcast_shapes_def)

section \<open>The shape of the gradient\<close>

lemma unbroadcast_shape: "unbroadcast g t = Inr r \<Longrightarrow> shape r = t"
  by (auto simp: unbroadcast_def split: if_splits)

lemma backward_shape:
  assumes "ctx ''derivative_core'' = Some d" and "shape d = n # rest"
      and "broadcast_shapes (shape d) (shape (data grad_output)) = Some (shape d)"
  shows "\<exists>G. MeanSquaredError_backward ctx grad_output = Inr G \<and> shape (data G) = shape d"
  using assms
  by (simp add: MeanSquaredError_backward_def bindE_def np_binop_def np_map_def
        unbroadcast_def unbroadcast_compatible_self Tensor_def)

text \<open>After a \<open>forward\<close> that tracked the gradient, \<open>backward\<close> on a scalar upstream gradient
  returns a gradient of the broadcast shape of prediction and target.\<close>

lemma forward_backward_shape:
  assumes t: "shape (data t) = b # rest"
      and s: "broadcast_shapes (shape (data p)) (shape (data t)) = Some s"
      and rg: "requires_grad p" and g: "shape (data grad_output) = []"
  shows "map_sum id (\<lambda>G. shape (data G))
           (MeanSquaredError_backward
              (snd (MeanSquaredError_forward ctx (PyTensor p) (PyTensor t))) grad_output)
         = Inr s"
proof -
  let ?d = "\<lparr>shape = s,
             elems = map2 fsub (broadcast_to (data p) s) (broadcast_to (data t) s)\<rparr>"
  let ?ctx = "snd (MeanSquaredError_forward ctx (PyTensor p) (PyTensor t))"
  have core: "?ctx ''derivative_core'' = Some ?d"
    using forward_on_tensors [OF t s, of ctx] rg by simp
  from length_broadcast_shapes [OF s] t have "s \<noteq> []" by auto
  then obtain n r where sh: "shape ?d = n # r"
    by (cases s) simp_all
  have bs: "broadcast_shapes (shape ?d) (shape (data grad_output)) = Some (shape ?d)"
    using g by (simp add: broadcast_shapes_Nil2)
  from backward_shape [of ?ctx ?d n r grad_output, OF core sh bs] show ?thesis
    by auto
qed

text \<open>
  Claim C2. The claim is that the gradient \<open>backward\<close> returns has the prediction's own
  shape even when \<open>forward\<close> broadcast the prediction. \<open>backward\<close> unbroadcasts to the shape
  of the cached difference, which is the broadcast shape: for a prediction of shape
  \<open>(1,)\<close> and a target of shape \<open>(4, 3)\<close> the gradient has shape \<open>(4, 3)\<close>, not \<open>(1,)\<close>.
\<close>

theorem backward_keeps_broadcast_shape:
  "map_sum id (\<lambda>g. shape (data g))
     (MeanSquaredError_backward
        (snd (MeanSquaredError_forward Map.empty
               (PyTensor (Tensor \<lparr>shape = [1], elems = [Num 1]\<rparr> True True))
               (PyTensor (Tensor \<lparr>shape = [4, 3],
                                  elems = map Num [1, 2, 3, 4, 5, 6, 7, 8, 9, 10, 11, 12]\<rparr>
                            False True))))
        (Tensor (np_scalar (Num 1)) False True))
   = Inr [4, 3]"
  by (simp add: MeanSquaredError_forward_def MeanSquaredError_backward_def Tensor_def
        np_binop_def broadcast_shapes_def bindE_def unbroadcast_def np_map_def np_scalar_def)

section \<open>The legacy functions and the graph node\<close>

lemma legacy_vector_layout:
  assumes X: "shape X = [M, n]" and W: "shape W = [n]" and Y: "shape Y = [M]"
      and lenY: "length (elems Y) = M"
  shows "MeanSquaredError_loss X Y W
         = Inr (fdiv (fsum (map (\<lambda>i. fsquare (fsub (row_prediction X W n i) (elems Y ! i)))
                              [0..<M]))
                  (Num (2 * real M)))"
    and "MeanSquaredError_derivative X Y W
         = Inr \<lparr>shape = [n],
                elems = map (\<lambda>j. fdiv
                    (fsum (map (\<lambda>i. fmul (fsub (row_prediction X W n i) (elems Y ! i))
                                      (elems X ! (i * n + j))) [0..<M]))
                    (Num (real M))) [0..<n]\<rparr>"
proof -
  let ?P = "\<lparr>shape = [M], elems = map (row_prediction X W n) [0..<M]\<rparr>"
  let ?D = "\<lparr>shape = [M],
             elems = map (\<lambda>i. fsub (row_prediction X W n i) (elems Y ! i)) [0..<M]\<rparr>"
  have P: "np_dot X W = Inr ?P"
    unfolding np_dot_mat_vec [OF X W] row_prediction_def ..
  have T: "np_T ?P = ?P"
    by (rule np_T_vector) simp_all
  have D: "np_binop fsub ?P Y = Inr ?D"
    using Y lenY map2_over_indices [OF lenY, of fsub "row_prediction X W n"]
    by (subst np_binop_same_shape) (simp_all add: wf_array_def)
  show "MeanSquaredError_loss X Y W
         = Inr (fdiv (fsum (map (\<lambda>i. fsquare (fsub (row_prediction X W n i) (elems Y ! i)))
                              [0..<M]))
                  (Num (2 * real M)))"
    using X by (simp add: MeanSquaredError_loss_def P T D bindE_def np_sum_def np_map_def comp_def)
  have G: "np_dot ?D X = Inr \<lparr>shape = [n],
             elems = map (\<lambda>j. fsum (map (\<lambda>i. fmul (fsub (row_prediction X W n i) (elems Y ! i))
                                        (elems X ! (i * n + j))) [0..<M])) [0..<n]\<rparr>"
    unfolding np_dot_vec_mat [of ?D M X n, OF _ X, simplified]
    by (auto intro!: map_cong arg_cong [where f = fsum])
  show "MeanSquaredError_derivative X Y W
         = Inr \<lparr>shape = [n],
                elems = map (\<lambda>j. fdiv
                    (fsum (map (\<lambda>i. fmul (fsub (row_prediction X W n i) (elems Y ! i))
                                      (elems X ! (i * n + j))) [0..<M]))
                    (Num (real M))) [0..<n]\<rparr>"
    using X
    by (simp add: MeanSquaredError_derivative_def P T D G bindE_def np_T_vector np_map_def
          comp_def)
qed




section \<open>The absolute error at a zero residual\<close>

lemma guarded_quotient_Num: "guarded_quotient (Num a) = Num (sgn a)"
  by (simp add: guarded_quotient_def fne_def sgn_real_def overflow_small)

text \<open>Without the guard the quotient at a zero residual would be \<open>nan\<close>.\<close>

lemma unguarded_quotient_zero: "fdiv (Num 0) (fabs (Num 0)) = NaN"
  by simp

lemma guarded_sign_elementwise:
  assumes "wf_array E"
  shows "guarded_sign E = Inr (np_map guarded_quotient E)"
proof -
  let ?A = "np_map fabs E"
  let ?m = "np_map (\<lambda>x. fne x (Num 0)) ?A"
  have wfA: "wf_array ?A" and wfm: "wf_array ?m"
    using assms by (simp_all add: np_map_wf)
  have bA: "broadcast_to ?A (shape E) = map fabs (elems E)"
    using broadcast_to_self [OF wfA] by (simp add: np_map_def)
  have bm: "broadcast_to ?m (shape E) = map (\<lambda>x. fne (fabs x) (Num 0)) (elems E)"
    using broadcast_to_self [OF wfm] by (simp add: np_map_def)
  have len: "prod_list (shape E) = length (elems E)"
    using assms by (simp add: wf_array_def)
  have "map (\<lambda>k. if map (\<lambda>x. fne (fabs x) (Num 0)) (elems E) ! k
                  then fdiv (elems E ! k) (map fabs (elems E) ! k)
                  else map (\<lambda>x. Num 0) (elems E) ! k) [0..<length (elems E)]
        = map guarded_quotient (elems E)"
    by (intro nth_equalityI) (simp_all add: guarded_quotient_def)
  then show ?thesis
    using broadcast_to_self [OF assms] bA bm len
    by (simp add: guarded_sign_def np_divide_where_def np_zeros_like_def
          broadcast_shapes3_self broadcast_shapes_self np_map_def Let_def cong: if_cong)
qed

text \<open>A finite sum of products has finite terms and factors.\<close>

lemma fadd_finite: "fadd a b = Num v \<Longrightarrow> (\<exists>x. a = Num x) \<and> (\<exists>y. b = Num y)"
  by (cases a; cases b) simp_all

lemma fmul_finite: "fmul a b = Num v \<Longrightarrow> (\<exists>x. a = Num x) \<and> (\<exists>y. b = Num y)"
  by (cases a; cases b) (simp_all split: if_splits)

lemma fsub_finite: "fsub a b = Num v \<Longrightarrow> (\<exists>x. a = Num x) \<and> (\<exists>y. b = Num y)"
  unfolding fsub_def by (cases a; cases b) simp_all

lemma fsum_finite: "fsum xs = Num v \<Longrightarrow> \<forall>x\<in>set xs. \<exists>r. x = Num r"
proof (induction xs arbitrary: v)
  case Nil
  then show ?case by simp
next
  case (Cons a xs)
  from Cons.prems have "fadd a (fsum xs) = Num v" by simp
  from fadd_finite [OF this] obtain x y where "a = Num x" and "fsum xs = Num y" by blast
  with Cons.IH show ?case by auto
qed

lemma row_prediction_finite:
  assumes "row_prediction X W n i = Num v" and "j < n"
  shows "\<exists>x. elems X ! (i * n + j) = Num x"
proof -
  from assms(2) have "fmul (elems X ! (i * n + j)) (elems W ! j)
      \<in> set (map (\<lambda>k. fmul (elems X ! (i * n + k)) (elems W ! k)) [0..<n])"
    by simp
  with fsum_finite [OF assms(1) [unfolded row_prediction_def]]
  obtain r where "fmul (elems X ! (i * n + j)) (elems W ! j) = Num r" by blast
  from fmul_finite [OF this] show ?thesis by blast
qed

text \<open>
  Claim C5. Let \<open>AbsError\<close> be \<open>np.dot(X, W).T - Y\<close> and let it be exactly zero at the flat
  position \<open>i\<close>. The guarded division succeeds and its result is 0 there (it is not
  \<open>nan\<close>), so the product of that entry with any finite number is 0; and the derivative is
  the dot product of the guarded quotients with \<open>X\<close>, transposed and divided by \<open>M\<close>. When
  \<open>X\<close> is an \<open>M\<close> by \<open>n\<close> matrix, \<open>W\<close> a vector of \<open>n\<close> weights and \<open>AbsError\<close> a vector of \<open>M\<close>
  residuals, \<open>derivative\<close> returns the vector whose every entry is the sum over the samples
  in which sample \<open>i\<close> contributes 0, divided by \<open>M\<close>.
\<close>

theorem absolute_derivative_zero_residual:
  assumes "np_dot X W = Inr P" and "np_binop fsub (np_T P) Y = Inr AbsError"
      and "shape X = M # rest"
      and "i < length (elems AbsError)" and "elems AbsError ! i = Num 0"
  shows "guarded_sign AbsError = Inr (np_map guarded_quotient AbsError)
       \<and> elems (np_map guarded_quotient AbsError) ! i = Num 0
       \<and> fmul (elems (np_map guarded_quotient AbsError) ! i) (Num x) = Num 0
       \<and> AbsoluteError_derivative X Y W
           = bindE (np_dot (np_map guarded_quotient AbsError) X)
               (\<lambda>G. Inr (np_map (\<lambda>x. fdiv x (Num (real M))) (np_T G)))
       \<and> (rest = [n] \<and> shape W = [n] \<and> shape AbsError = [M]
          \<longrightarrow> AbsoluteError_derivative X Y W
              = Inr \<lparr>shape = [n],
                    elems = map (\<lambda>j. fdiv
                        (fsum (map (\<lambda>k. if k = i then Num 0
                                        else fmul (guarded_quotient (elems AbsError ! k))
                                               (elems X ! (k * n + j)))
                                 [0..<M]))
                        (Num (real M))) [0..<n]\<rparr>)"
proof -
  let ?S = "np_map guarded_quotient AbsError"
  have wf: "wf_array AbsError"
    using assms(2) by (rule np_binop_wf)
  have S: "guarded_sign AbsError = Inr ?S"
    using wf by (rule guarded_sign_elementwise)
  have Si: "elems ?S ! i = Num 0"
    using assms(4,5) by (simp add: np_map_def guarded_quotient_def fne_def)
  have D: "AbsoluteError_derivative X Y W
             = bindE (np_dot ?S X) (\<lambda>G. Inr (np_map (\<lambda>x. fdiv x (Num (real M))) (np_T G)))"
    using assms(1,2,3) S by (simp add: AbsoluteError_derivative_def bindE_def)
  have L: "AbsoluteError_derivative X Y W
             = Inr \<lparr>shape = [n],
                   elems = map (\<lambda>j. fdiv
                       (fsum (map (\<lambda>k. if k = i then Num 0
                                       else fmul (guarded_quotient (elems AbsError ! k))
                                              (elems X ! (k * n + j)))
                                [0..<M]))
                       (Num (real M))) [0..<n]\<rparr>"
    if r: "rest = [n]" and shW: "shape W = [n]" and sh: "shape AbsError = [M]"
  proof -
    let ?P = "\<lparr>shape = [M], elems = map (row_prediction X W n) [0..<M]\<rparr>"
    have shS: "shape ?S = [M]" using sh by (simp add: np_map_def)
    have shX: "shape X = [M, n]" using assms(3) r by simp
    have lenE: "length (elems AbsError) = M"
      using wf sh by (simp add: wf_array_def)
    have P: "P = ?P"
      using assms(1) unfolding np_dot_mat_vec [OF shX shW] row_prediction_def by simp
    have T: "np_T ?P = ?P"
      by (rule np_T_vector) simp_all
    have wfP: "wf_array ?P"
      by (simp add: wf_array_def)
    have "elems AbsError = map2 fsub (broadcast_to ?P [M]) (broadcast_to Y [M])"
      using assms(2) sh unfolding P T
      by (auto simp: np_binop_def split: option.splits)
    moreover have "broadcast_to ?P [M] = elems ?P"
      using broadcast_to_self [OF wfP] by simp
    ultimately have "elems AbsError ! i
        = fsub (row_prediction X W n i) (broadcast_to Y [M] ! i)"
      using assms(4) lenE by (simp add: length_broadcast_to)
    with assms(5) have "fsub (row_prediction X W n i) (broadcast_to Y [M] ! i) = Num 0"
      by simp
    from fsub_finite [OF this] obtain v where v: "row_prediction X W n i = Num v"
      by blast
    have summand: "fmul (elems ?S ! k) (elems X ! (k * n + j))
                = (if k = i then Num 0
                   else fmul (guarded_quotient (elems AbsError ! k)) (elems X ! (k * n + j)))"
      if "j < n" and "k < M" for k j
    proof (cases "k = i")
      case True
      from row_prediction_finite [OF v \<open>j < n\<close>]
      obtain x where "elems X ! (i * n + j) = Num x" by blast
      with True Si show ?thesis by (simp add: overflow_small)
    next
      case False
      then show ?thesis using that lenE by (simp add: np_map_def)
    qed
    have dot: "np_dot ?S X = Inr \<lparr>shape = [n],
           elems = map (\<lambda>j. fsum (map (\<lambda>k. if k = i then Num 0
                                 else fmul (guarded_quotient (elems AbsError ! k))
                                        (elems X ! (k * n + j))) [0..<M]))
                     [0..<n]\<rparr>"
      unfolding np_dot_vec_mat [OF shS shX]
      using summand by (auto intro!: map_cong arg_cong [where f = fsum])
    show ?thesis
      unfolding D dot
      by (simp add: bindE_def np_T_vector np_map_def comp_def)
  qed
  from S Si D L show ?thesis
    by (simp add: overflow_small)
qed

theorem absolute_derivative_zero_residual_witness:
  "np_dot \<lparr>shape = [2, 2], elems = [Num 1, Num 0, Num 0, Num 1]\<rparr>
          \<lparr>shape = [2], elems = [Num 1, Num 2]\<rparr>
     = Inr \<lparr>shape = [2], elems = [Num 1, Num 2]\<rparr>
   \<and> np_binop fsub (np_T \<lparr>shape = [2], elems = [Num 1, Num 2]\<rparr>)
          \<lparr>shape = [2], elems = [Num 1, Num 5]\<rparr>
     = Inr \<lparr>shape = [2], elems = [Num 0, Num (- 3)]\<rparr>
   \<and> elems \<lparr>shape = [2], elems = [Num 0, Num (- 3)]\<rparr> ! 0 = Num 0
   \<and> guarded_sign \<lparr>shape = [2], elems = [Num 0, Num (- 3)]\<rparr>
     = Inr \<lparr>shape = [2], elems = [Num 0, Num (- 1)]\<rparr>
   \<and> AbsoluteError_derivative \<lparr>shape = [2, 2], elems = [Num 1, Num 0, Num 0, Num 1]\<rparr>
          \<lparr>shape = [2], elems = [Num 1, Num 5]\<rparr> \<lparr>shape = [2], elems = [Num 1, Num 2]\<rparr>
     = Inr \<lparr>shape = [2], elems = [Num 0, Num (- 1 / 2)]\<rparr>"
proof -
  let ?X = "\<lparr>shape = [2, 2], elems = [Num 1, Num 0, Num 0, Num 1]\<rparr>"
  let ?W = "\<lparr>shape = [2], elems = [Num 1, Num 2]\<rparr>"
  let ?Y = "\<lparr>shape = [2], elems = [Num 1, Num 5]\<rparr>"
  let ?P = "\<lparr>shape = [2], elems = [Num 1, Num 2]\<rparr>"
  let ?E = "\<lparr>shape = [2], elems = [Num 0, Num (- 3)]\<rparr>"
  have d: "np_dot ?X ?W = Inr ?P"
    by (simp add: np_dot_def dot_axis_def dot_rest_def dot_index_def upt_rec overflow_small)
  have e: "np_binop fsub (np_T ?P) ?Y = Inr ?E"
    by (simp add: np_T_def np_binop_def broadcast_shapes_def broadcast_to_def
          project_index_def fsub_def upt_rec overflow_small)
  have sh: "shape ?X = 2 # [2]" by simp
  have i: "0 < length (elems ?E)" by simp
  have z: "elems ?E ! 0 = Num 0" by simp
  have q: "np_map guarded_quotient ?E = \<lparr>shape = [2], elems = [Num 0, Num (- 1)]\<rparr>"
    by (simp add: np_map_def guarded_quotient_Num)
  note T = absolute_derivative_zero_residual [OF d e sh i z, of 0 2]
  from T have g: "guarded_sign ?E = Inr \<lparr>shape = [2], elems = [Num 0, Num (- 1)]\<rparr>"
    unfolding q by (rule conjunct1)
  have pre: "[2::nat] = [2] \<and> shape ?W = [2] \<and> shape ?E = [2]"
    by simp
  from T have imp: "[2::nat] = [2] \<and> shape ?W = [2] \<and> shape ?E = [2]
          \<longrightarrow> AbsoluteError_derivative ?X ?Y ?W
          = Inr \<lparr>shape = [2],
                 elems = map (\<lambda>j. fdiv
                     (fsum (map (\<lambda>k. if k = 0 then Num 0
                                     else fmul (guarded_quotient (elems ?E ! k))
                                            (elems ?X ! (k * 2 + j)))
                              [0..<2]))
                     (Num (real 2))) [0..<2]\<rparr>"
    by (elim conjE)
  from imp pre have "AbsoluteError_derivative ?X ?Y ?W
          = Inr \<lparr>shape = [2],
                 elems = map (\<lambda>j. fdiv
                     (fsum (map (\<lambda>k. if k = 0 then Num 0
                                     else fmul (guarded_quotient (elems ?E ! k))
                                            (elems ?X ! (k * 2 + j)))
                              [0..<2]))
                     (Num (real 2))) [0..<2]\<rparr>"
    by (rule mp)
  then have v: "AbsoluteError_derivative ?X ?Y ?W
          = Inr \<lparr>shape = [2], elems = [Num 0, Num (- 1 / 2)]\<rparr>"
    by (simp add: guarded_quotient_Num upt_rec overflow_small)
  from d e z g v show ?thesis by (intro conjI)
qed

section \<open>The Huber loss at its boundary\<close>

text \<open>With \<open>delta\<close> a Python float, \<open>Huber.loss\<close> chooses between its two branches element by
  element of the difference \<open>X - Y\<close>.\<close>

lemma Huber_loss_elementwise:
  assumes D: "np_binop fsub X Y = Inr D"
  shows "Huber_loss X Y (Some (np_scalar delta))
         = Inr \<lparr>shape = shape D,
                elems = map (\<lambda>k. if fle (fabs (elems D ! k)) delta
                                 then huber_smooth (elems D ! k)
                                 else huber_linear delta (elems D ! k))
                          [0..<length (elems D)]\<rparr>"
proof -
  let ?A = "np_map fabs D"
  have wfD: "wf_array D"
    using D by (rule np_binop_wf)
  have wfA: "wf_array ?A"
    using wfD by (rule np_map_wf)
  let ?C = "\<lparr>shape = shape ?A, elems = map (\<lambda>x. fle x delta) (elems ?A)\<rparr>"
  have C: "np_binop fle ?A (np_scalar delta) = Inr ?C"
    using wfA by (rule np_binop_scalar_right)
  let ?L1 = "\<lparr>shape = shape ?A,
              elems = map (\<lambda>x. fsub x (fmul (Num (1 / 2)) delta)) (elems ?A)\<rparr>"
  have half: "np_map (\<lambda>x. fmul (Num (1 / 2)) x) (np_scalar delta)
              = np_scalar (fmul (Num (1 / 2)) delta)"
    by (simp add: np_map_def np_scalar_def)
  have L1: "np_binop fsub ?A (np_scalar (fmul (Num (1 / 2)) delta)) = Inr ?L1"
    using wfA by (rule np_binop_scalar_right)
  have wfL1: "wf_array ?L1"
    using L1 by (rule np_binop_wf)
  let ?L = "\<lparr>shape = shape ?L1, elems = map (\<lambda>x. fmul delta x) (elems ?L1)\<rparr>"
  have L: "np_binop fmul (np_scalar delta) ?L1 = Inr ?L"
    using wfL1 by (rule np_binop_scalar_left)
  let ?S = "np_map (\<lambda>x. fmul (Num (1 / 2)) (fsquare x)) D"
  have W: "np_where ?C ?S ?L
           = Inr \<lparr>shape = shape ?C,
                  elems = map (\<lambda>k. if elems ?C ! k then elems ?S ! k else elems ?L ! k)
                            [0..<length (elems ?C)]\<rparr>"
    using wfD by (intro np_where_same_shape) (simp_all add: wf_array_def np_map_def)
  have "Huber_loss X Y (Some (np_scalar delta)) = np_where ?C ?S ?L"
    by (simp add: Huber_loss_def huber_delta_def D C half L1 L bindE_def Let_def)
  also have "\<dots> = Inr \<lparr>shape = shape D,
                elems = map (\<lambda>k. if fle (fabs (elems D ! k)) delta
                                 then huber_smooth (elems D ! k)
                                 else huber_linear delta (elems D ! k))
                          [0..<length (elems D)]\<rparr>"
    unfolding W
    by (simp add: np_map_def huber_smooth_def huber_linear_def cong: if_cong)
  finally show ?thesis .
qed

text \<open>Within the range of the floats the two branches compute the real formulas.\<close>

lemma abs_le_square_bound:
  assumes "r\<^sup>2 \<le> float_max"
  shows "\<bar>r\<bar> \<le> float_max"
proof (cases "\<bar>r\<bar> \<le> 1")
  case True
  with float_max_large show ?thesis by linarith
next
  case False
  then have "\<bar>r\<bar> * 1 \<le> \<bar>r\<bar> * \<bar>r\<bar>"
    by (intro mult_left_mono) simp_all
  then have "\<bar>r\<bar> \<le> r\<^sup>2"
    by (simp add: power2_eq_square)
  with assms show ?thesis by linarith
qed

lemma huber_smooth_in_range:
  assumes "r\<^sup>2 \<le> float_max"
  shows "huber_smooth (Num r) = Num (1 / 2 * r\<^sup>2)"
proof -
  have "fsquare (Num r) = Num (r\<^sup>2)"
    using assms by (simp add: fsquare_def power2_eq_square overflow_in_range)
  moreover have "\<bar>r\<^sup>2 / 2\<bar> \<le> float_max"
  proof -
    have "\<bar>r\<^sup>2 / 2\<bar> = r\<^sup>2 / 2" by simp
    moreover have "r\<^sup>2 / 2 \<le> r\<^sup>2" by simp
    ultimately show ?thesis using assms by linarith
  qed
  ultimately show ?thesis
    by (simp add: huber_smooth_def overflow_in_range)
qed

lemma huber_linear_in_range:
  assumes d: "0 < d" and r: "d \<le> \<bar>r\<bar>" and sq: "r\<^sup>2 \<le> float_max"
  shows "huber_linear (Num d) (Num r) = Num (d * (\<bar>r\<bar> - 1 / 2 * d))"
proof -
  have ar: "\<bar>r\<bar> \<le> float_max"
    using sq by (rule abs_le_square_bound)
  have half: "overflow (d / 2) = Num (d / 2)"
    using d r ar by (intro overflow_in_range) simp
  have diff: "overflow (\<bar>r\<bar> - d / 2) = Num (\<bar>r\<bar> - d / 2)"
    using d r ar by (intro overflow_in_range) simp
  have "0 \<le> (\<bar>r\<bar> - d)\<^sup>2" by simp
  then have "d * (\<bar>r\<bar> - 1 / 2 * d) \<le> 1 / 2 * r\<^sup>2"
    by (simp add: power2_eq_square algebra_simps)
  moreover have "0 \<le> d * (\<bar>r\<bar> - 1 / 2 * d)"
    using d r by (intro mult_nonneg_nonneg) simp_all
  ultimately have "\<bar>d * (\<bar>r\<bar> - d / 2)\<bar> \<le> float_max"
    using sq zero_le_power2 [of r] by simp
  then have prod: "overflow (d * (\<bar>r\<bar> - d / 2)) = Num (d * (\<bar>r\<bar> - d / 2))"
    by (rule overflow_in_range)
  show ?thesis
    by (simp add: huber_linear_def fsub_def half diff prod)
qed

lemma huber_spec_min:
  "huber_spec d r = min (abs r) d * (abs r - min (abs r) d / 2)"
  by (simp add: huber_spec_def min_def power2_eq_square algebra_simps)

lemma huber_spec_continuous: "isCont (huber_spec d) r"
proof -
  have "huber_spec d = (\<lambda>r. min (abs r) d * (abs r - min (abs r) d / 2))"
    by (rule ext) (rule huber_spec_min)
  then show ?thesis
    by (simp add: continuous_intros)
qed

text \<open>
  Claim C7, as amended. Let \<open>delta > 0\<close> be a Python float and \<open>D\<close> the difference \<open>X - Y\<close>.
  Every element of \<open>Huber.loss(X, Y, delta)\<close> is the smooth branch \<open>0.5 * D^2\<close> where
  \<open>|D| \<le> delta\<close> and the linear branch \<open>delta * (|D| - 0.5 * delta)\<close> elsewhere. At a finite
  element whose \<open>D^2\<close> does not overflow, the value returned is the Huber function of the
  spec at \<open>D\<close>, which is continuous; and where \<open>|D|\<close> is exactly \<open>delta\<close>, the smooth branch and
  the linear branch both compute \<open>0.5 * delta^2\<close>.
\<close>

theorem huber_continuous_at_delta:
  assumes "np_binop fsub X Y = Inr D"
      and "k < length (elems D)" and "elems D ! k = Num r"
      and "0 < d" and "r\<^sup>2 \<le> float_max"
  shows "Huber_loss X Y (Some (np_scalar (Num d)))
         = Inr \<lparr>shape = shape D,
                elems = map (\<lambda>j. if fle (fabs (elems D ! j)) (Num d)
                                 then huber_smooth (elems D ! j)
                                 else huber_linear (Num d) (elems D ! j))
                          [0..<length (elems D)]\<rparr>
       \<and> map_sum id (\<lambda>R. elems R ! k) (Huber_loss X Y (Some (np_scalar (Num d))))
           = Inr (Num (huber_spec d r))
       \<and> (\<bar>r\<bar> = d
            \<longrightarrow> huber_smooth (Num r) = Num (1 / 2 * d\<^sup>2)
              \<and> huber_linear (Num d) (Num r) = Num (1 / 2 * d\<^sup>2)
              \<and> huber_spec d r = 1 / 2 * d\<^sup>2)
       \<and> isCont (huber_spec d) r"
proof -
  note E = Huber_loss_elementwise [OF assms(1), of "Num d"]
  have smooth: "huber_smooth (Num r) = Num (1 / 2 * r\<^sup>2)"
    using assms(5) by (rule huber_smooth_in_range)
  have linear: "huber_linear (Num d) (Num r) = Num (d * (\<bar>r\<bar> - 1 / 2 * d))" if "d \<le> \<bar>r\<bar>"
    using assms(4) that assms(5) by (rule huber_linear_in_range)
  have elem: "(if \<bar>r\<bar> \<le> d then huber_smooth (Num r) else huber_linear (Num d) (Num r))
              = Num (huber_spec d r)"
    using smooth linear by (simp add: huber_spec_def)
  have val: "map_sum id (\<lambda>R. elems R ! k) (Huber_loss X Y (Some (np_scalar (Num d))))
           = Inr (Num (huber_spec d r))"
    unfolding E using assms(2,3) by (simp add: elem cong: if_cong)
  have boundary: "huber_smooth (Num r) = Num (1 / 2 * d\<^sup>2)
              \<and> huber_linear (Num d) (Num r) = Num (1 / 2 * d\<^sup>2)
              \<and> huber_spec d r = 1 / 2 * d\<^sup>2" if b: "\<bar>r\<bar> = d"
  proof -
    have sq: "r\<^sup>2 = d\<^sup>2"
      using b by (metis power2_abs)
    have "d * (\<bar>r\<bar> - 1 / 2 * d) = 1 / 2 * d\<^sup>2"
      using b by (simp add: power2_eq_square)
    then show ?thesis
      using smooth linear b sq by (simp add: huber_spec_def)
  qed
  from E val boundary huber_spec_continuous [where d = d and r = r] show ?thesis
    by blast
qed

theorem huber_continuous_at_delta_witness:
  "np_binop fsub \<lparr>shape = [2, 1], elems = [Num 3, Num 6]\<rparr> \<lparr>shape = [1], elems = [Num 1]\<rparr>
     = Inr \<lparr>shape = [2, 1], elems = [Num 2, Num 5]\<rparr>
   \<and> 2\<^sup>2 \<le> float_max \<and> \<bar>2\<bar> = (2 :: real)
   \<and> huber_smooth (Num 2) = Num 2
   \<and> huber_linear (Num 2) (Num 2) = Num 2
   \<and> map_sum id (\<lambda>R. elems R ! 0)
        (Huber_loss \<lparr>shape = [2, 1], elems = [Num 3, Num 6]\<rparr>
           \<lparr>shape = [1], elems = [Num 1]\<rparr> (Some (np_scalar (Num 2))))
     = Inr (Num 2)
   \<and> map_sum id (\<lambda>R. elems R ! 1)
        (Huber_loss \<lparr>shape = [2, 1], elems = [Num 3, Num 6]\<rparr>
           \<lparr>shape = [1], elems = [Num 1]\<rparr> (Some (np_scalar (Num 2))))
     = Inr (Num 8)"
proof -
  let ?X = "\<lparr>shape = [2, 1], elems = [Num 3, Num 6]\<rparr>"
  let ?Y = "\<lparr>shape = [1], elems = [Num 1]\<rparr>"
  let ?D = "\<lparr>shape = [2, 1], elems = [Num 2, Num 5]\<rparr>"
  have a: "2\<^sup>2 \<le> float_max" and b: "5\<^sup>2 \<le> float_max"
    using float_max_large by simp_all
  have D: "np_binop fsub ?X ?Y = Inr ?D"
    by (simp add: np_binop_def broadcast_shapes_def broadcast_to_def project_index_def
          fsub_def upt_rec overflow_small)
  have e0: "0 < length (elems ?D)" "elems ?D ! 0 = Num 2"
    and e1: "1 < length (elems ?D)" "elems ?D ! 1 = Num 5"
    and d: "0 < (2::real)"
    by simp_all
  note T0 = huber_continuous_at_delta [OF D e0 d a]
  note T1 = huber_continuous_at_delta [OF D e1 d b]
  from T0 [THEN conjunct2, THEN conjunct1]
  have k0: "map_sum id (\<lambda>R. elems R ! 0) (Huber_loss ?X ?Y (Some (np_scalar (Num 2))))
              = Inr (Num 2)"
    by (simp add: huber_spec_def)
  from T0 [THEN conjunct2, THEN conjunct2, THEN conjunct1]
  have b0: "huber_smooth (Num 2) = Num 2 \<and> huber_linear (Num 2) (Num 2) = Num 2"
    by simp
  from T1 [THEN conjunct2, THEN conjunct1]
  have k1: "map_sum id (\<lambda>R. elems R ! 1) (Huber_loss ?X ?Y (Some (np_scalar (Num 2))))
              = Inr (Num 8)"
    by (simp add: huber_spec_def)
  from a D k0 b0 k1 show ?thesis by simp
qed

text \<open>
  Claim C7 as stated ranges over every \<open>delta > 0\<close>. For \<open>delta = 2^512\<close>, a float, and an
  element with \<open>X - Y = 2^512\<close>, the square in the smooth branch overflows: the smooth
  branch is \<open>inf\<close>, the linear branch is \<open>2^1023\<close>, and \<open>Huber.loss\<close> returns \<open>inf\<close>.
\<close>

theorem huber_continuous_at_delta_counterexample:
  "np_binop fsub \<lparr>shape = [1], elems = [Num (2 ^ 512)]\<rparr> \<lparr>shape = [1], elems = [Num 0]\<rparr>
     = Inr \<lparr>shape = [1], elems = [Num (2 ^ 512)]\<rparr>
   \<and> huber_smooth (Num (2 ^ 512)) = PosInf
   \<and> huber_linear (Num (2 ^ 512)) (Num (2 ^ 512)) = Num (2 ^ 1023)
   \<and> Huber_loss \<lparr>shape = [1], elems = [Num (2 ^ 512)]\<rparr> \<lparr>shape = [1], elems = [Num 0]\<rparr>
        (Some (np_scalar (Num (2 ^ 512))))
     = Inr \<lparr>shape = [1], elems = [PosInf]\<rparr>"
proof -
  have D: "np_binop fsub \<lparr>shape = [1], elems = [Num (2 ^ 512)]\<rparr>
             \<lparr>shape = [1], elems = [Num 0]\<rparr>
           = Inr \<lparr>shape = [1], elems = [Num (2 ^ 512)]\<rparr>"
    by (simp add: np_binop_def broadcast_shapes_def broadcast_to_def project_index_def
          fsub_def overflow_def float_max_def)
  have s: "huber_smooth (Num (2 ^ 512)) = PosInf"
    by (simp add: huber_smooth_def fsquare_def overflow_def float_max_def)
  have l: "huber_linear (Num (2 ^ 512)) (Num (2 ^ 512)) = Num (2 ^ 1023)"
    by (simp add: huber_linear_def fsub_def overflow_def float_max_def)
  have h: "Huber_loss \<lparr>shape = [1], elems = [Num (2 ^ 512)]\<rparr> \<lparr>shape = [1], elems = [Num 0]\<rparr>
        (Some (np_scalar (Num (2 ^ 512))))
     = Inr \<lparr>shape = [1], elems = [PosInf]\<rparr>"
    unfolding Huber_loss_elementwise [OF D]
    by (simp add: huber_smooth_def huber_linear_def fsquare_def fsub_def
          overflow_def float_max_def)
  from D s l h show ?thesis by (intro conjI)
qed

section \<open>Type checking in \<open>forward\<close>\<close>

lemma type_name_Tensor: "type_name x = ''Tensor'' \<longleftrightarrow> (\<exists>t. x = PyTensor t)"
  by (cases x) simp_all


text \<open>
  Claim C10. Whenever \<open>forward\<close> raises its type error, the context it was given is the
  context it leaves: nothing was written to it, so no \<open>derivative_core\<close> is stored by
  the failed call. The type error is raised exactly when an argument is not a tensor.
\<close>

theorem forward_type_error_leaves_ctx:
  assumes "fst (MeanSquaredError_forward ctx prediction target) = Inl (RuntimeError m)"
  shows "snd (MeanSquaredError_forward ctx prediction target) = ctx
       \<and> \<not> (type_name prediction = ''Tensor'' \<and> type_name target = ''Tensor'')"
  using assms
  by (auto simp: MeanSquaredError_forward_def Let_def type_name_Tensor
           split: list.splits sum.splits if_splits dest: np_binop_error)

theorem forward_type_error_leaves_ctx_witness:
  "fst (MeanSquaredError_forward [''derivative_core'' \<mapsto> np_scalar (Num 7)]
          (PyNdarray (np_scalar (Num 1))) (PyTensor (Tensor (np_scalar (Num 2)) True True)))
     = Inl (RuntimeError (type_error_message ''ndarray'' ''Tensor''))
   \<and> snd (MeanSquaredError_forward [''derivative_core'' \<mapsto> np_scalar (Num 7)]
          (PyNdarray (np_scalar (Num 1))) (PyTensor (Tensor (np_scalar (Num 2)) True True)))
     = [''derivative_core'' \<mapsto> np_scalar (Num 7)]"
proof -
  have h: "fst (MeanSquaredError_forward [''derivative_core'' \<mapsto> np_scalar (Num 7)]
          (PyNdarray (np_scalar (Num 1))) (PyTensor (Tensor (np_scalar (Num 2)) True True)))
     = Inl (RuntimeError (type_error_message ''ndarray'' ''Tensor''))"
    by (simp add: MeanSquaredError_forward_def)
  from forward_type_error_leaves_ctx [OF h] h show ?thesis by simp
qed

section \<open>The alias \<open>MSELoss\<close>\<close>

text \<open>
  Claim C9. \<open>MSELoss\<close> defines nothing of its own: every attribute lookup on it finds
  what the same lookup on \<open>MeanSquaredError\<close> finds, and each of \<open>forward\<close>, \<open>backward\<close>,
  \<open>loss\<close> and \<open>derivative\<close> called through \<open>MSELoss\<close> returns what the function of
  \<open>MeanSquaredError\<close> returns.
\<close>

theorem MSELoss_is_MeanSquaredError:
  "class_getattr (MSELoss F) a = class_getattr (MeanSquaredError F) a
   \<and> call_forward (MSELoss F) ctx prediction target
       = MeanSquaredError_forward ctx prediction target
   \<and> call_backward (MSELoss F) ctx grad_output = MeanSquaredError_backward ctx grad_output
   \<and> call_loss (MSELoss F) X Y W = MeanSquaredError_loss X Y W
   \<and> call_derivative (MSELoss F) X Y W = MeanSquaredError_derivative X Y W"
  by (cases "class_getattr (MeanSquaredError F) a")
     (simp_all add: MSELoss_def MeanSquaredError_def call_forward_def call_backward_def
       call_loss_def call_derivative_def)

section \<open>The mean-squared-log loss\<close>

text \<open>
  Claim C6. The claim is that \<open>MeanSquaredLogLoss.loss\<close> returns
  \<open>sqrt((1/M) * sum(log(Y+1) - log(H+1)))\<close>. The function asks the sigmoid object for
  \<open>activations\<close>, which it does not have (its operation is \<open>activation\<close>, as the other
  families call it), so every call raises before anything is computed: an
  \<open>AttributeError\<close>, or the \<open>IndexError\<close> of \<open>X.shape[0]\<close> when \<open>X\<close> has no axis.
\<close>

theorem MeanSquaredLogLoss_always_raises:
  "MeanSquaredLogLoss_loss X Y W = Inl (if shape X = [] then IndexError else AttributeError)"
  by (simp add: MeanSquaredLogLoss_loss_def Sigmoid_getattr_def bindE_def split: list.splits)

end
